theory Spec2Isabelle
  imports Complex_Main "HOL-Library.Sublist"
begin

section \<open>JavaScript values and the platform\<close>

text \<open>
  The services handle untyped run-time values: \<^verbatim>\<open>JSON.parse(userData) as AuthUser\<close> is
  an unchecked cast, and optional response fields are \<^verbatim>\<open>undefined\<close> when absent. Values
  are therefore modelled as a datatype. A finite number is a real (negative zero is
  identified with zero; both are falsy). \<open>JUndefined\<close> is never the result of JSON.parse.
  An object is the list of its own properties; a lookup takes the first binding of a key.
\<close>

datatype jsvalue =
    JUndefined
  | JNull
  | JBool bool
  | JNumber real
  | JString string
  | JArray "jsvalue list"
  | JObject "(string \<times> jsvalue) list"

text \<open>ToBoolean, as applied by \<^verbatim>\<open>!user\<close>, \<^verbatim>\<open>a || b\<close> and \<^verbatim>\<open>if (x)\<close>.\<close>

fun truthy :: "jsvalue \<Rightarrow> bool" where
  "truthy JUndefined = False"
| "truthy JNull = False"
| "truthy (JBool b) = b"
| "truthy (JNumber x) = (x \<noteq> 0)"
| "truthy (JString s) = (s \<noteq> [])"
| "truthy (JArray vs) = True"
| "truthy (JObject kvs) = True"

text \<open>\<^verbatim>\<open>a || 'literal'\<close>\<close>

definition or_default :: "jsvalue \<Rightarrow> string \<Rightarrow> jsvalue" where
  "or_default a d = (if truthy a then a else JString d)"

datatype js_error = TypeError

text \<open>
  Property read \<^verbatim>\<open>v.k\<close>. Reading a property of null or undefined throws a TypeError. The
  keys this program reads (id, user, token, message, duplicate, scanId) are not properties
  of a primitive or of an array, where the read gives undefined.
\<close>

fun get_prop :: "jsvalue \<Rightarrow> string \<Rightarrow> js_error + jsvalue" where
  "get_prop JUndefined k = Inl TypeError"
| "get_prop JNull k = Inl TypeError"
| "get_prop (JObject kvs) k = Inr (case map_of kvs k of None \<Rightarrow> JUndefined | Some v \<Rightarrow> v)"
| "get_prop v k = Inr JUndefined"

text \<open>A request handed to \<^verbatim>\<open>fetch\<close>, and what the call gives back.\<close>

record request =
  rq_method :: string
  rq_url :: string
  rq_headers :: "(string \<times> string) list"
  rq_body :: "string option"

text \<open>
  \<open>NetworkError\<close>: the promise of fetch rejects. In a \<open>Response\<close> the body is \<open>None\<close>
  when \<^verbatim>\<open>response.json()\<close> rejects.
\<close>

datatype fetch_result =
    NetworkError
  | Response (rs_ok: bool) (rs_status: nat) (rs_body: "jsvalue option")

text \<open>
  The built-ins of the host that the services call. They are parameters of the model:
  every theorem below holds for each behaviour of them.
  \<^item> \<open>JSON_parse\<close>: \<open>None\<close> when JSON.parse throws a SyntaxError;
  \<^item> \<open>JSON_stringify\<close>: \<open>None\<close> when JSON.stringify returns undefined;
  \<^item> \<open>ToString\<close>: the string conversion localStorage.setItem applies to its value;
  \<^item> \<open>fetch\<close>: the remote API at BASE_URL.
\<close>

record platform =
  JSON_parse :: "string \<Rightarrow> jsvalue option"
  JSON_stringify :: "jsvalue \<Rightarrow> string option"
  ToString :: "jsvalue \<Rightarrow> string"
  fetch :: "request \<Rightarrow> fetch_result"

text \<open>Decimal rendering of a non-negative integer inside a template literal.\<close>

definition digit_char :: "nat \<Rightarrow> char" where
  "digit_char d = ''0123456789'' ! d"

fun string_of_nat :: "nat \<Rightarrow> string" where
  "string_of_nat n =
     (if n < 10 then [digit_char n] else string_of_nat (n div 10) @ [digit_char (n mod 10)])"

declare string_of_nat.simps [simp del]

section \<open>api.config.ts\<close>

definition USE_MOCK :: bool where
  "USE_MOCK = True"

definition BASE_URL :: string where
  "BASE_URL = ''https://api.example.com''"

definition AUTH_LOGIN :: string where
  "AUTH_LOGIN = ''/auth/login''"

definition AUTH_SIGNUP :: string where
  "AUTH_SIGNUP = ''/auth/signup''"

definition AUTH_VALIDATE :: string where
  "AUTH_VALIDATE = ''/auth/validate''"

definition SCANNER_SUBMIT :: string where
  "SCANNER_SUBMIT = ''/scan/submit''"

definition AUTH_TOKEN :: string where
  "AUTH_TOKEN = ''auth_token''"

definition USER_DATA :: string where
  "USER_DATA = ''user_data''"

section \<open>mock.data.ts and the state of the program\<close>

text \<open>
  Several interfaces of the source have a field \<^verbatim>\<open>id\<close>, \<^verbatim>\<open>username\<close> or \<^verbatim>\<open>email\<close>; the
  record fields carry a prefix that names the interface (\<open>mu\<close> MockUser, \<open>au\<close> AuthUser,
  \<open>sc\<close> ScannedCode).
\<close>

record MockUser =
  mu_id :: nat
  mu_username :: string
  mu_email :: string
  mu_password :: string

record AuthUser =
  au_id :: nat
  au_username :: string
  au_email :: string

text \<open>
  The owner of a scan is \<^verbatim>\<open>user.id\<close> of the value parsed from storage: any value, or
  undefined.
\<close>

record ScannedCode =
  sc_id :: string
  sc_data :: string
  sc_scannedAt :: string
  sc_userId :: jsvalue

text \<open>
  The state the services read and write: localStorage (which outlives a page load), the
  module-level variables of mock.data.ts (which do not), and the requests sent with fetch
  so far.
\<close>

record world =
  localStorage :: "string \<rightharpoonup> string"
  mockUsers :: "MockUser list"
  userIdCounter :: nat
  scannedCodes :: "ScannedCode list"
  scanIdCounter :: nat
  requests :: "request list"

definition seed_users :: "MockUser list" where
  "seed_users =
     [\<lparr>mu_id = 1, mu_username = ''demo'', mu_email = ''demo@example.com'',
       mu_password = ''demo123''\<rparr>]"

text \<open>The state of a freshly loaded page over a given persisted storage.\<close>

definition fresh_context :: "(string \<rightharpoonup> string) \<Rightarrow> request list \<Rightarrow> world" where
  "fresh_context store sent =
     \<lparr>localStorage = store, mockUsers = seed_users, userIdCounter = length seed_users,
      scannedCodes = [], scanIdCounter = 0, requests = sent\<rparr>"

definition generateMockToken :: "nat \<Rightarrow> nat \<Rightarrow> string" where
  "generateMockToken userId now =
     ''mock-jwt-token-'' @ string_of_nat userId @ ''-'' @ string_of_nat now"

definition addMockUser :: "string \<Rightarrow> string \<Rightarrow> string \<Rightarrow> world \<Rightarrow> world \<times> MockUser" where
  "addMockUser username email password w =
     (let n = userIdCounter w + 1;
          newUser = \<lparr>mu_id = n, mu_username = username, mu_email = email,
                     mu_password = password\<rparr>
      in (w\<lparr>userIdCounter := n, mockUsers := mockUsers w @ [newUser]\<rparr>, newUser))"

definition findUserByUsername :: "world \<Rightarrow> string \<Rightarrow> MockUser option" where
  "findUserByUsername w username = find (\<lambda>user. mu_username user = username) (mockUsers w)"

definition findUserByEmail :: "world \<Rightarrow> string \<Rightarrow> MockUser option" where
  "findUserByEmail w email = find (\<lambda>user. mu_email user = email) (mockUsers w)"

definition validateCredentials :: "world \<Rightarrow> string \<Rightarrow> string \<Rightarrow> MockUser option" where
  "validateCredentials w username password =
     find (\<lambda>u. mu_username u = username \<and> mu_password u = password) (mockUsers w)"

definition isCodeAlreadyScanned :: "world \<Rightarrow> string \<Rightarrow> bool" where
  "isCodeAlreadyScanned w data = list_ex (\<lambda>code. sc_data code = data) (scannedCodes w)"

text \<open>\<open>nowISO\<close> is what \<^verbatim>\<open>new Date().toISOString()\<close> gives at the call.\<close>

definition addScannedCode :: "string \<Rightarrow> string \<Rightarrow> jsvalue \<Rightarrow> world \<Rightarrow> world \<times> ScannedCode" where
  "addScannedCode nowISO data userId w =
     (let n = scanIdCounter w + 1;
          newScan = \<lparr>sc_id = ''scan-'' @ string_of_nat n, sc_data = data,
                     sc_scannedAt = nowISO, sc_userId = userId\<rparr>
      in (w\<lparr>scanIdCounter := n, scannedCodes := scannedCodes w @ [newScan]\<rparr>, newScan))"

section \<open>localStorage\<close>

definition getItem :: "world \<Rightarrow> string \<Rightarrow> string option" where
  "getItem w key = localStorage w key"

definition setItem :: "string \<Rightarrow> string \<Rightarrow> world \<Rightarrow> world" where
  "setItem key v w = w\<lparr>localStorage := (localStorage w)(key \<mapsto> v)\<rparr>"

definition removeItem :: "string \<Rightarrow> world \<Rightarrow> world" where
  "removeItem key w = w\<lparr>localStorage := (localStorage w)(key := None)\<rparr>"

text \<open>
  A call on localStorage as a value, so that a function can be described by the calls it
  makes, in program order; \<open>run_ops_upto n\<close> is the state after the first \<open>n\<close> of them.
\<close>

datatype storage_op = SetItem string string | RemoveItem string

fun run_op :: "storage_op \<Rightarrow> world \<Rightarrow> world" where
  "run_op (SetItem key v) w = setItem key v w"
| "run_op (RemoveItem key) w = removeItem key w"

fun run_ops :: "storage_op list \<Rightarrow> world \<Rightarrow> world" where
  "run_ops [] w = w"
| "run_ops (c # cs) w = run_ops cs (run_op c w)"

definition run_ops_upto :: "nat \<Rightarrow> storage_op list \<Rightarrow> world \<Rightarrow> world" where
  "run_ops_upto n cs w = run_ops (take n cs) w"

definition send :: "request \<Rightarrow> world \<Rightarrow> world" where
  "send req w = w\<lparr>requests := requests w @ [req]\<rparr>"

text \<open>\<^verbatim>\<open>localStorage.setItem(key, JSON.stringify(v))\<close>: undefined is stored as the text "undefined".\<close>

definition stringify_item :: "platform \<Rightarrow> jsvalue \<Rightarrow> string" where
  "stringify_item env v = (case JSON_stringify env v of Some s \<Rightarrow> s | None \<Rightarrow> ''undefined'')"

definition startsWith :: "string \<Rightarrow> string \<Rightarrow> bool" where
  "startsWith s p = prefix p s"

section \<open>auth.service.ts\<close>

text \<open>
  Each asynchronous service function is modelled as one step on the state. In the mock
  branches this is what runs: after the delay (\<^verbatim>\<open>simulateDelay\<close>) a mock branch has no
  further \<^verbatim>\<open>await\<close>, so nothing comes between its reads of the module state and its writes
  (\<^verbatim>\<open>validateToken\<close> reads localStorage before the delay and writes nothing in its mock
  branch). In the real-API branches the request and what follows its response are taken
  together. \<open>now\<close> is \<^verbatim>\<open>Date.now()\<close> at that step. Optional response fields that are absent
  are \<open>JUndefined\<close>.
\<close>

record LoginResponse =
  lr_success :: bool
  lr_token :: jsvalue
  lr_user :: jsvalue
  lr_error :: jsvalue

record SignupResponse =
  su_success :: bool
  su_message :: jsvalue
  su_error :: jsvalue

record ValidateResponse =
  vr_valid :: bool
  vr_user :: jsvalue

definition authUser_value :: "AuthUser \<Rightarrow> jsvalue" where
  "authUser_value u =
     JObject [(''id'', JNumber (of_nat (au_id u))), (''username'', JString (au_username u)),
              (''email'', JString (au_email u))]"

definition login_failed :: "jsvalue \<Rightarrow> LoginResponse" where
  "login_failed e =
     \<lparr>lr_success = False, lr_token = JUndefined, lr_user = JUndefined, lr_error = e\<rparr>"

definition login_request :: "platform \<Rightarrow> string \<Rightarrow> string \<Rightarrow> request" where
  "login_request env username password =
     \<lparr>rq_method = ''POST'', rq_url = BASE_URL @ AUTH_LOGIN,
      rq_headers = [(''Content-Type'', ''application/json'')],
      rq_body = JSON_stringify env
        (JObject [(''username'', JString username), (''password'', JString password)])\<rparr>"

text \<open>
  What \<^verbatim>\<open>login\<close> does, in program order: the requests it sends, the calls it makes on
  localStorage, and the response it returns. In the real-API branch a property read of a
  null body throws inside the \<^verbatim>\<open>try\<close>, which the \<^verbatim>\<open>catch\<close> turns into the network error.
\<close>

definition login_steps ::
  "platform \<Rightarrow> nat \<Rightarrow> string \<Rightarrow> string \<Rightarrow> world \<Rightarrow> request list \<times> storage_op list \<times> LoginResponse" where
  "login_steps env now username password w =
     (if USE_MOCK then
        (case validateCredentials w username password of
           Some user \<Rightarrow>
             (let token = generateMockToken (mu_id user) now;
                  authUser = \<lparr>au_id = mu_id user, au_username = mu_username user,
                              au_email = mu_email user\<rparr>
              in ([],
                  [SetItem AUTH_TOKEN token,
                   SetItem USER_DATA (stringify_item env (authUser_value authUser))],
                  \<lparr>lr_success = True, lr_token = JString token,
                   lr_user = authUser_value authUser, lr_error = JUndefined\<rparr>))
         | None \<Rightarrow> ([], [], login_failed (JString ''Invalid username or password'')))
      else
        (let req = login_request env username password;
             network_error = login_failed (JString ''Network error. Please try again.'')
         in case fetch env req of
              NetworkError \<Rightarrow> ([req], [], network_error)
            | Response ok status body \<Rightarrow>
                (case body of
                   None \<Rightarrow> ([req], [], network_error)
                 | Some data \<Rightarrow>
                     (case (get_prop data ''token'', get_prop data ''user'',
                            get_prop data ''message'') of
                        (Inr token, Inr user, Inr message) \<Rightarrow>
                          if ok \<and> truthy token then
                            ([req],
                             [SetItem AUTH_TOKEN (ToString env token),
                              SetItem USER_DATA (stringify_item env user)],
                             \<lparr>lr_success = True, lr_token = token, lr_user = user,
                              lr_error = JUndefined\<rparr>)
                          else ([req], [], login_failed (or_default message ''Login failed''))
                      | _ \<Rightarrow> ([req], [], network_error)))))"

definition login ::
  "platform \<Rightarrow> nat \<Rightarrow> string \<Rightarrow> string \<Rightarrow> world \<Rightarrow> world \<times> LoginResponse" where
  "login env now username password w =
     (case login_steps env now username password w of
        (reqs, ops, response) \<Rightarrow> (run_ops ops (foldl (\<lambda>v r. send r v) w reqs), response))"

definition signup_request :: "platform \<Rightarrow> string \<Rightarrow> string \<Rightarrow> string \<Rightarrow> request" where
  "signup_request env username email password =
     \<lparr>rq_method = ''POST'', rq_url = BASE_URL @ AUTH_SIGNUP,
      rq_headers = [(''Content-Type'', ''application/json'')],
      rq_body = JSON_stringify env
        (JObject [(''username'', JString username), (''email'', JString email),
                  (''password'', JString password)])\<rparr>"

definition signup ::
  "platform \<Rightarrow> string \<Rightarrow> string \<Rightarrow> string \<Rightarrow> world \<Rightarrow> world \<times> SignupResponse" where
  "signup env username email password w =
     (if USE_MOCK then
        (if findUserByUsername w username \<noteq> None then
           (w, \<lparr>su_success = False, su_message = JUndefined,
                su_error = JString ''Username already taken''\<rparr>)
         else if findUserByEmail w email \<noteq> None then
           (w, \<lparr>su_success = False, su_message = JUndefined,
                su_error = JString ''Email already registered''\<rparr>)
         else
           (fst (addMockUser username email password w),
            \<lparr>su_success = True,
             su_message = JString ''Account created successfully. Please login.'',
             su_error = JUndefined\<rparr>))
      else
        (let req = signup_request env username email password;
             w1 = send req w;
             network_error = \<lparr>su_success = False, su_message = JUndefined,
                              su_error = JString ''Network error. Please try again.''\<rparr>
         in case fetch env req of
              NetworkError \<Rightarrow> (w1, network_error)
            | Response ok status body \<Rightarrow>
                (case body of
                   None \<Rightarrow> (w1, network_error)
                 | Some data \<Rightarrow>
                     (case get_prop data ''message'' of
                        Inl e \<Rightarrow> (w1, network_error)
                      | Inr message \<Rightarrow>
                          if ok then
                            (w1, \<lparr>su_success = True,
                                  su_message = or_default message ''Account created successfully'',
                                  su_error = JUndefined\<rparr>)
                          else
                            (w1, \<lparr>su_success = False, su_message = JUndefined,
                                  su_error = or_default message ''Signup failed''\<rparr>)))))"

definition logout :: "world \<Rightarrow> world" where
  "logout w = removeItem USER_DATA (removeItem AUTH_TOKEN w)"

definition not_valid :: ValidateResponse where
  "not_valid = \<lparr>vr_valid = False, vr_user = JUndefined\<rparr>"

definition validate_request :: "string \<Rightarrow> request" where
  "validate_request token =
     \<lparr>rq_method = ''GET'', rq_url = BASE_URL @ AUTH_VALIDATE,
      rq_headers = [(''Authorization'', ''Bearer '' @ token)], rq_body = None\<rparr>"

definition validateToken :: "platform \<Rightarrow> world \<Rightarrow> world \<times> ValidateResponse" where
  "validateToken env w =
     (case (getItem w AUTH_TOKEN, getItem w USER_DATA) of
        (Some token, Some userData) \<Rightarrow>
          if token = [] then (w, not_valid)
          else if userData = [] then (w, not_valid)
          else if USE_MOCK then
            (if startsWith token ''mock-jwt-token-'' then
               (case JSON_parse env userData of
                  Some user \<Rightarrow> (w, \<lparr>vr_valid = True, vr_user = user\<rparr>)
                | None \<Rightarrow> (w, not_valid))
             else (w, not_valid))
          else
            (let req = validate_request token; w1 = send req w
             in case fetch env req of
                  NetworkError \<Rightarrow> (w1, not_valid)
                | Response ok status body \<Rightarrow>
                    if ok then
                      (case body of
                         None \<Rightarrow> (w1, not_valid)
                       | Some data \<Rightarrow>
                           (case get_prop data ''user'' of
                              Inl e \<Rightarrow> (w1, not_valid)
                            | Inr user \<Rightarrow> (w1, \<lparr>vr_valid = True, vr_user = user\<rparr>)))
                    else (logout w1, not_valid))
      | _ \<Rightarrow> (w, not_valid))"

definition getToken :: "world \<Rightarrow> string option" where
  "getToken w = getItem w AUTH_TOKEN"

text \<open>The result is \<open>JNull\<close> for \<^verbatim>\<open>null\<close>, and otherwise whatever value the stored text parses to.\<close>

definition getCurrentUser :: "platform \<Rightarrow> world \<Rightarrow> jsvalue" where
  "getCurrentUser env w =
     (case getItem w USER_DATA of
        Some userData \<Rightarrow>
          if userData = [] then JNull
          else (case JSON_parse env userData of Some user \<Rightarrow> user | None \<Rightarrow> JNull)
      | None \<Rightarrow> JNull)"

section \<open>scanner.service.ts\<close>

record ScanSubmitResponse =
  ss_success :: bool
  ss_duplicate :: bool
  ss_message :: jsvalue
  ss_scanId :: jsvalue
  ss_error :: jsvalue

text \<open>The shapes of the responses. An absent \<^verbatim>\<open>duplicate\<close> field reads as false.\<close>

definition submit_failed :: "jsvalue \<Rightarrow> ScanSubmitResponse" where
  "submit_failed e =
     \<lparr>ss_success = False, ss_duplicate = False, ss_message = JUndefined,
      ss_scanId = JUndefined, ss_error = e\<rparr>"

definition submit_duplicate :: "jsvalue \<Rightarrow> ScanSubmitResponse" where
  "submit_duplicate m =
     \<lparr>ss_success = False, ss_duplicate = True, ss_message = m, ss_scanId = JUndefined,
      ss_error = JUndefined\<rparr>"

definition submit_ok :: "jsvalue \<Rightarrow> jsvalue \<Rightarrow> ScanSubmitResponse" where
  "submit_ok m scanId =
     \<lparr>ss_success = True, ss_duplicate = False, ss_message = m, ss_scanId = scanId,
      ss_error = JUndefined\<rparr>"

definition getAuthHeader :: "world \<Rightarrow> (string \<times> string) list" where
  "getAuthHeader w =
     (case getItem w AUTH_TOKEN of
        Some token \<Rightarrow> if token = [] then [] else [(''Authorization'', ''Bearer '' @ token)]
      | None \<Rightarrow> [])"

definition submit_request :: "platform \<Rightarrow> string \<Rightarrow> string \<Rightarrow> world \<Rightarrow> request" where
  "submit_request env nowISO scannedData w =
     \<lparr>rq_method = ''POST'', rq_url = BASE_URL @ SCANNER_SUBMIT,
      rq_headers = (''Content-Type'', ''application/json'') # getAuthHeader w,
      rq_body = JSON_stringify env
        (JObject [(''data'', JString scannedData), (''timestamp'', JString nowISO)])\<rparr>"

text \<open>
  \<open>nowISO\<close> is what \<^verbatim>\<open>new Date().toISOString()\<close> gives during the call. \<open>Inl e\<close>: the
  promise rejects with \<open>e\<close>. The mock branch has no \<^verbatim>\<open>try\<close>, so a throwing \<^verbatim>\<open>user.id\<close>
  would reject; the real-API branch catches everything.
\<close>

definition submitScan ::
  "platform \<Rightarrow> string \<Rightarrow> string \<Rightarrow> world \<Rightarrow> world \<times> (js_error + ScanSubmitResponse)" where
  "submitScan env nowISO scannedData w =
     (if USE_MOCK then
        (let user = getCurrentUser env w
         in if \<not> truthy user then (w, Inr (submit_failed (JString ''User not authenticated'')))
            else if isCodeAlreadyScanned w scannedData then
              (w, Inr (submit_duplicate (JString ''This QR code has already been scanned'')))
            else
              (case get_prop user ''id'' of
                 Inl e \<Rightarrow> (w, Inl e)
               | Inr userId \<Rightarrow>
                   (case addScannedCode nowISO scannedData userId w of
                      (w', scan) \<Rightarrow>
                        (w', Inr (submit_ok (JString ''QR code scanned successfully'')
                                    (JString (sc_id scan)))))))
      else
        (let req = submit_request env nowISO scannedData w;
             w1 = send req w;
             network_error = submit_failed (JString ''Network error. Please try again.'')
         in case fetch env req of
              NetworkError \<Rightarrow> (w1, Inr network_error)
            | Response ok status body \<Rightarrow>
                (case body of
                   None \<Rightarrow> (w1, Inr network_error)
                 | Some data \<Rightarrow>
                     (case (get_prop data ''duplicate'', get_prop data ''message'',
                            get_prop data ''scanId'') of
                        (Inr dup, Inr message, Inr scanId) \<Rightarrow>
                          if status = 409 \<or> truthy dup then
                            (w1, Inr (submit_duplicate
                               (or_default message ''This QR code has already been scanned'')))
                          else if ok then
                            (w1, Inr (submit_ok
                               (or_default message ''QR code scanned successfully'') scanId))
                          else
                            (w1, Inr (submit_failed
                               (or_default message ''Failed to submit scan'')))
                      | _ \<Rightarrow> (w1, Inr network_error)))))"

section \<open>Scanner.tsx: the scan page\<close>

datatype ScanState = Scanning | Processing | Success | Duplicate | Error

record ScanResult =
  sr_data :: string
  sr_message :: jsvalue

record Scanner =
  scanState :: ScanState
  scanResult :: "ScanResult option"
  stopStream :: bool
  cameraError :: "string option"
  snackbarOpen :: bool

definition initial_Scanner :: Scanner where
  "initial_Scanner =
     \<lparr>scanState = Scanning, scanResult = None, stopStream = False, cameraError = None,
      snackbarOpen = False\<rparr>"

text \<open>
  Inside \<^verbatim>\<open>handleScanUpdate\<close> the name \<^verbatim>\<open>scanState\<close> is not the state React holds when the
  handler runs: it is the constant of the render that built the closure (\<^verbatim>\<open>useCallback\<close>
  with the dependency \<^verbatim>\<open>scanState\<close> builds a new closure in the next render). A call of a
  state setter changes the state React holds and leaves the constants of every closure
  built so far as they are. The handler therefore takes the captured \<^verbatim>\<open>scanState\<close> as an
  argument of its own.

  The page together with what it acts on:
  \<^item> \<open>ui\<close>: the component state that React holds, each setter call applied;
  \<^item> \<open>onUpdate\<close>: the \<^verbatim>\<open>scanState\<close> captured by the \<^verbatim>\<open>handleScanUpdate\<close> closure that
    \<^verbatim>\<open>BarcodeScanner\<close> was last given as its \<^verbatim>\<open>onUpdate\<close> prop, that is the handler the
    camera calls;
  \<^item> \<open>services\<close>: the state of the services;
  \<^item> \<open>in_flight\<close>: the texts of the \<^verbatim>\<open>submitScan\<close> calls that have been made and have
    not settled yet, oldest first (each waits on its own timer of the same length).
\<close>

record page =
  ui :: Scanner
  onUpdate :: ScanState
  services :: world
  in_flight :: "string list"

text \<open>
  \<^verbatim>\<open>handleScanUpdate\<close> up to its \<^verbatim>\<open>await\<close>. \<open>captured\<close> is the \<^verbatim>\<open>scanState\<close> of the closure.
  \<open>result\<close> is the text of \<^verbatim>\<open>result\<close>, or \<open>None\<close> when the camera reports a frame with no
  result.
\<close>

definition handleScanUpdate :: "ScanState \<Rightarrow> string option \<Rightarrow> page \<Rightarrow> page" where
  "handleScanUpdate captured result p =
     (if captured \<noteq> Scanning then p
      else
        (case result of
           None \<Rightarrow> p
         | Some scannedData \<Rightarrow>
             p\<lparr>ui := (ui p)\<lparr>stopStream := True, scanState := Processing\<rparr>,
               in_flight := in_flight p @ [scannedData]\<rparr>))"

definition show_result :: "ScanState \<Rightarrow> string \<Rightarrow> jsvalue \<Rightarrow> Scanner \<Rightarrow> Scanner" where
  "show_result st scannedData m u =
     u\<lparr>scanState := st, scanResult := Some \<lparr>sr_data = scannedData, sr_message = m\<rparr>\<rparr>"

text \<open>
  The rest of \<^verbatim>\<open>handleScanUpdate\<close>: the oldest call in flight settles (\<^verbatim>\<open>submitScan\<close> runs on
  the services) and the handler resumes with its outcome.
\<close>

definition handleScanUpdate_resume :: "platform \<Rightarrow> string \<Rightarrow> page \<Rightarrow> page" where
  "handleScanUpdate_resume env nowISO p =
     (case in_flight p of
        [] \<Rightarrow> p
      | scannedData # rest \<Rightarrow>
          (case submitScan env nowISO scannedData (services p) of
             (w', outcome) \<Rightarrow>
               (let u =
                  (case outcome of
                     Inr response \<Rightarrow>
                       if ss_success response then
                         show_result Success scannedData
                           (or_default (ss_message response) ''Scan submitted successfully!'')
                           (ui p)
                       else if ss_duplicate response then
                         show_result Duplicate scannedData
                           (or_default (ss_message response)
                              ''This code has already been scanned'')
                           (ui p)
                       else
                         show_result Error scannedData
                           (or_default (ss_error response) ''Failed to submit scan'') (ui p)
                   | Inl e \<Rightarrow>
                       show_result Error scannedData
                         (JString ''An unexpected error occurred'') (ui p))
                in p\<lparr>ui := u\<lparr>snackbarOpen := True\<rparr>, services := w', in_flight := rest\<rparr>)))"

text \<open>The argument of \<^verbatim>\<open>handleCameraError\<close>: a string, or a DOMException with its name.\<close>

datatype camera_error = ErrorText string | DOMException string

definition handleCameraError :: "camera_error \<Rightarrow> page \<Rightarrow> page" where
  "handleCameraError e p =
     p\<lparr>ui := (ui p)\<lparr>cameraError := Some
        (case e of
           DOMException name \<Rightarrow>
             if name = ''NotAllowedError'' then
               ''Camera access denied. Please allow camera access in your browser settings.''
             else if name = ''NotFoundError'' then ''No camera found on this device.''
             else ''Failed to access camera. Please try again.''
         | ErrorText t \<Rightarrow> ''Failed to access camera. Please try again.'')\<rparr>\<rparr>"

definition handleScanAnother :: "page \<Rightarrow> page" where
  "handleScanAnother p =
     p\<lparr>ui := (ui p)\<lparr>scanState := Scanning, scanResult := None, stopStream := False,
                    cameraError := None\<rparr>\<rparr>"

text \<open>
  The JSX renders \<^verbatim>\<open>BarcodeScanner\<close>, with \<^verbatim>\<open>onUpdate={handleScanUpdate}\<close>, only under
  \<^verbatim>\<open>scanState === 'scanning' && !cameraError\<close>.
\<close>

definition renders_BarcodeScanner :: "Scanner \<Rightarrow> bool" where
  "renders_BarcodeScanner u =
     (scanState u = Scanning \<and> (case cameraError u of None \<Rightarrow> True | Some m \<Rightarrow> m = []))"

text \<open>
  A render. Where it renders \<^verbatim>\<open>BarcodeScanner\<close>, the camera gets the handler of this
  render, which captures the current \<^verbatim>\<open>scanState\<close>; where it does not, no handler is
  handed over.
\<close>

definition render :: "page \<Rightarrow> page" where
  "render p = (if renders_BarcodeScanner (ui p) then p\<lparr>onUpdate := scanState (ui p)\<rparr> else p)"

text \<open>
  What can happen to the page, and the page after a sequence of such events. \<open>Decoded\<close>:
  the camera calls the handler it holds. The model does not say when the camera does so,
  only what the handler then does.
\<close>

datatype event =
    Decoded "string option"
  | Rendered
  | Settled string
  | CameraFailed camera_error
  | ScanAnother

fun step :: "platform \<Rightarrow> page \<Rightarrow> event \<Rightarrow> page" where
  "step env p (Decoded result) = handleScanUpdate (onUpdate p) result p"
| "step env p Rendered = render p"
| "step env p (Settled nowISO) = handleScanUpdate_resume env nowISO p"
| "step env p (CameraFailed e) = handleCameraError e p"
| "step env p ScanAnother = handleScanAnother p"

definition steps :: "platform \<Rightarrow> page \<Rightarrow> event list \<Rightarrow> page" where
  "steps env p es = foldl (step env) p es"

section \<open>Runs of the services\<close>

text \<open>A call of one of the services, and the state after a sequence of calls.\<close>

datatype action =
    Login nat string string
  | Signup string string string
  | ValidateToken
  | Logout
  | SubmitScan string string

fun perform :: "platform \<Rightarrow> world \<Rightarrow> action \<Rightarrow> world" where
  "perform env w (Login now username password) = fst (login env now username password w)"
| "perform env w (Signup username email password) = fst (signup env username email password w)"
| "perform env w ValidateToken = fst (validateToken env w)"
| "perform env w Logout = logout w"
| "perform env w (SubmitScan nowISO scannedData) = fst (submitScan env nowISO scannedData w)"

definition run :: "platform \<Rightarrow> world \<Rightarrow> action list \<Rightarrow> world" where
  "run env w as = foldl (perform env) w as"

text \<open>
  A sequence of \<^verbatim>\<open>submitScan\<close> calls for one text. Each call comes with the localStorage it
  finds (whoever is logged in by then) and its clock reading; the responses are collected
  in order.
\<close>

fun submitScans ::
  "platform \<Rightarrow> string \<Rightarrow> ((string \<rightharpoonup> string) \<times> string) list \<Rightarrow> world \<Rightarrow>
   world \<times> (js_error + ScanSubmitResponse) list" where
  "submitScans env scannedData [] w = (w, [])"
| "submitScans env scannedData (c # cs) w =
     (case submitScan env (snd c) scannedData (w\<lparr>localStorage := fst c\<rparr>) of
        (w1, r) \<Rightarrow>
          (case submitScans env scannedData cs w1 of (w2, rs) \<Rightarrow> (w2, r # rs)))"

section \<open>A host for concrete runs\<close>

text \<open>
  A host whose JSON functions are given on the few texts and values that the concrete runs
  below use, where they agree with ECMAScript's JSON; every other text is unparseable to
  it. Its remote API refuses every request with status 401. The two identity texts are
  \<^verbatim>\<open>{"id":1,"username":"demo","email":"demo@example.com"}\<close>, which is what JSON.stringify
  gives for the identity of the seeded user, and \<^verbatim>\<open>{"id":42}\<close>; the double quote is
  written \<open>CHR 0x22\<close>.
\<close>

definition demo_json :: string where
  "demo_json =
     [CHR ''{'', CHR 0x22] @ ''id'' @ [CHR 0x22] @ '':1,'' @ [CHR 0x22] @ ''username'' @
     [CHR 0x22] @ '':'' @ [CHR 0x22] @ ''demo'' @ [CHR 0x22] @ '','' @ [CHR 0x22] @ ''email'' @
     [CHR 0x22] @ '':'' @ [CHR 0x22] @ ''demo@example.com'' @ [CHR 0x22, CHR ''}'']"

definition demo_user :: jsvalue where
  "demo_user =
     JObject [(''id'', JNumber 1), (''username'', JString ''demo''),
              (''email'', JString ''demo@example.com'')]"

definition ghost_json :: string where
  "ghost_json = [CHR ''{'', CHR 0x22] @ ''id'' @ [CHR 0x22] @ '':42}''"

definition ghost_user :: jsvalue where
  "ghost_user = JObject [(''id'', JNumber 42)]"

definition test_host :: platform where
  "test_host =
     \<lparr>JSON_parse = map_of [(demo_json, demo_user), (ghost_json, ghost_user), (''null'', JNull)],
      JSON_stringify = (\<lambda>v. if v = demo_user then Some demo_json
                              else if v = ghost_user then Some ghost_json
                              else if v = JNull then Some ''null'' else None),
      ToString = (\<lambda>v. case v of JString s \<Rightarrow> s | _ \<Rightarrow> []),
      fetch = (\<lambda>req. Response False 401 None)\<rparr>"

definition demo_token :: string where
  "demo_token = ''mock-jwt-token-1-1700000000000''"

text \<open>localStorage after the demo user has logged in at time 1700000000000.\<close>

definition demo_store :: "string \<rightharpoonup> string" where
  "demo_store = [AUTH_TOKEN \<mapsto> demo_token, USER_DATA \<mapsto> demo_json]"

text \<open>
  A session that no login wrote: a token that is only the prefix, and an identity with an
  id that no user of the credential store has.
\<close>

definition forged_store :: "string \<rightharpoonup> string" where
  "forged_store = [AUTH_TOKEN \<mapsto> ''mock-jwt-token-'', USER_DATA \<mapsto> ghost_json]"

text \<open>An earlier session of another identity.\<close>

definition stale_store :: "string \<rightharpoonup> string" where
  "stale_store = [AUTH_TOKEN \<mapsto> ''mock-jwt-token-42-7'', USER_DATA \<mapsto> ghost_json]"

text \<open>A session whose identity entry is cut short, so that it is not JSON.\<close>

definition corrupt_store :: "string \<rightharpoonup> string" where
  "corrupt_store = [AUTH_TOKEN \<mapsto> demo_token, USER_DATA \<mapsto> ''{'']"

text \<open>The state after the demo user, logged in on a fresh page, has had CODE-1 accepted.\<close>

definition first_scan_recorded :: world where
  "first_scan_recorded =
     \<lparr>localStorage = demo_store, mockUsers = seed_users, userIdCounter = length seed_users,
      scannedCodes =
        [\<lparr>sc_id = ''scan-1'', sc_data = ''CODE-1'',
          sc_scannedAt = ''2024-01-01T00:00:00.000Z'', sc_userId = JNumber 1\<rparr>],
      scanIdCounter = 1, requests = []\<rparr>"

text \<open>
  The scan page as first rendered, for the logged-in demo user: the state is Scanning with
  no camera error, so this render hands its handler to \<^verbatim>\<open>BarcodeScanner\<close>.
\<close>

definition scan_page :: page where
  "scan_page =
     \<lparr>ui = initial_Scanner, onUpdate = Scanning, services = fresh_context demo_store [],
      in_flight = []\<rparr>"

section \<open>Notions the properties are stated with\<close>

text \<open>
  The identity survives serialisation: JSON.stringify gives a non-empty text that
  JSON.parse maps back to the same value.
\<close>

definition json_round_trips :: "platform \<Rightarrow> jsvalue \<Rightarrow> bool" where
  "json_round_trips env v =
     (case JSON_stringify env v of
        Some s \<Rightarrow> s \<noteq> [] \<and> JSON_parse env s = Some v
      | None \<Rightarrow> False)"

text \<open>
  The validation collaborator recognises a token: the validate endpoint, asked with that
  token, answers with an ok status.
\<close>

definition collaborator_recognizes :: "platform \<Rightarrow> string \<Rightarrow> bool" where
  "collaborator_recognizes env token =
     (case fetch env (validate_request token) of
        NetworkError \<Rightarrow> False
      | Response ok status body \<Rightarrow> ok)"

text \<open>A user is logged in over a given localStorage: \<^verbatim>\<open>getCurrentUser()\<close> is truthy.\<close>

definition authenticated :: "platform \<Rightarrow> (string \<rightharpoonup> string) \<Rightarrow> bool" where
  "authenticated env store = truthy (getCurrentUser env (fresh_context store []))"

definition accepted_response :: "string \<Rightarrow> js_error + ScanSubmitResponse" where
  "accepted_response scanId =
     Inr (submit_ok (JString ''QR code scanned successfully'') (JString scanId))"

definition duplicate_response :: "js_error + ScanSubmitResponse" where
  "duplicate_response =
     Inr (submit_duplicate (JString ''This QR code has already been scanned''))"

definition not_authenticated_response :: "js_error + ScanSubmitResponse" where
  "not_authenticated_response = Inr (submit_failed (JString ''User not authenticated''))"

text \<open>The records of the ledger that carry a given text.\<close>

definition records_of :: "string \<Rightarrow> world \<Rightarrow> ScannedCode list" where
  "records_of d w = filter (\<lambda>code. sc_data code = d) (scannedCodes w)"

section \<open>The session manager\<close>

subsection \<open>Facts about storage and the concrete runs\<close>

lemma storage_keys_differ: "AUTH_TOKEN \<noteq> USER_DATA"
  by (simp add: AUTH_TOKEN_def USER_DATA_def)

lemma getItem_setItem_same: "getItem (setItem key v w) key = Some v"
  by (simp add: getItem_def setItem_def)

lemma getItem_setItem_other: "key' \<noteq> key \<Longrightarrow> getItem (setItem key v w) key' = getItem w key'"
  by (simp add: getItem_def setItem_def)

lemma getItem_fresh_context: "getItem (fresh_context store sent) key = store key"
  by (simp add: getItem_def fresh_context_def)

lemma token_has_prefix: "startsWith (generateMockToken userId now) ''mock-jwt-token-''"
  by (simp add: startsWith_def generateMockToken_def)

lemma token_not_empty: "generateMockToken userId now \<noteq> []"
  by (simp add: generateMockToken_def)

lemma demo_token_minted: "generateMockToken (Suc 0) 1700000000000 = demo_token"
  by (simp add: generateMockToken_def demo_token_def string_of_nat.simps digit_char_def)

lemma demo_token_has_prefix: "startsWith demo_token ''mock-jwt-token-''"
  by (simp add: startsWith_def demo_token_def)

lemma parse_demo_json: "JSON_parse test_host demo_json = Some demo_user"
  by (simp add: test_host_def)

lemma parse_ghost_json: "JSON_parse test_host ghost_json = Some ghost_user"
  by (simp add: test_host_def demo_json_def ghost_json_def)

lemma parse_cut_short: "JSON_parse test_host ''{'' = None"
  by (simp add: test_host_def demo_json_def ghost_json_def)

lemma stringify_demo_user: "JSON_stringify test_host demo_user = Some demo_json"
  by (simp add: test_host_def)

lemma demo_json_not_empty: "demo_json \<noteq> []"
  by (simp add: demo_json_def)

lemma ghost_json_not_empty: "ghost_json \<noteq> []"
  by (simp add: ghost_json_def)

lemma demo_user_round_trips: "json_round_trips test_host demo_user"
  by (simp add: json_round_trips_def stringify_demo_user parse_demo_json demo_json_not_empty)

lemma seed_credentials:
  "validateCredentials (fresh_context store sent) ''demo'' ''demo123'' =
     Some \<lparr>mu_id = 1, mu_username = ''demo'', mu_email = ''demo@example.com'',
           mu_password = ''demo123''\<rparr>"
  by (simp add: validateCredentials_def fresh_context_def seed_users_def)

lemma wrong_password:
  "validateCredentials (fresh_context store sent) ''demo'' ''wrongpass'' = None"
  by (simp add: validateCredentials_def fresh_context_def seed_users_def)

lemma demo_identity:
  "authUser_value \<lparr>au_id = Suc 0, au_username = ''demo'', au_email = ''demo@example.com''\<rparr> =
     demo_user"
  by (simp add: authUser_value_def demo_user_def)

lemma login_steps_demo:
  "login_steps test_host 1700000000000 ''demo'' ''demo123'' (fresh_context store sent) =
     ([], [SetItem AUTH_TOKEN demo_token, SetItem USER_DATA demo_json],
      \<lparr>lr_success = True, lr_token = JString demo_token, lr_user = demo_user,
       lr_error = JUndefined\<rparr>)"
  unfolding login_steps_def seed_credentials
  by (simp add: USE_MOCK_def Let_def demo_identity demo_token_minted stringify_item_def
      stringify_demo_user)

lemma login_demo:
  "login test_host 1700000000000 ''demo'' ''demo123'' (fresh_context store sent) =
     (setItem USER_DATA demo_json (setItem AUTH_TOKEN demo_token (fresh_context store sent)),
      \<lparr>lr_success = True, lr_token = JString demo_token, lr_user = demo_user,
       lr_error = JUndefined\<rparr>)"
  unfolding login_def login_steps_demo by simp

lemma demo_store_written:
  "localStorage (setItem USER_DATA demo_json
     (setItem AUTH_TOKEN demo_token (fresh_context Map.empty sent))) = demo_store"
  by (simp add: setItem_def fresh_context_def demo_store_def)

text \<open>What a successful login is, in the mock configuration.\<close>

lemma login_success_cases:
  assumes "login env now username password w = (w', r)" and "lr_success r"
  obtains user :: MockUser and identity :: jsvalue where
    "validateCredentials w username password = Some user"
    and "identity = authUser_value \<lparr>au_id = mu_id user, au_username = mu_username user,
                                      au_email = mu_email user\<rparr>"
    and "r = \<lparr>lr_success = True, lr_token = JString (generateMockToken (mu_id user) now),
              lr_user = identity, lr_error = JUndefined\<rparr>"
    and "login_steps env now username password w =
           ([], [SetItem AUTH_TOKEN (generateMockToken (mu_id user) now),
                 SetItem USER_DATA (stringify_item env identity)], r)"
    and "w' = setItem USER_DATA (stringify_item env identity)
                (setItem AUTH_TOKEN (generateMockToken (mu_id user) now) w)"
proof (cases "validateCredentials w username password")
  case None
  with assms show ?thesis
    by (auto simp: login_def login_steps_def USE_MOCK_def login_failed_def)
next
  case (Some user)
  define identity where
    "identity = authUser_value \<lparr>au_id = mu_id user, au_username = mu_username user,
                                 au_email = mu_email user\<rparr>"
  have steps: "login_steps env now username password w =
      ([], [SetItem AUTH_TOKEN (generateMockToken (mu_id user) now),
            SetItem USER_DATA (stringify_item env identity)],
       \<lparr>lr_success = True, lr_token = JString (generateMockToken (mu_id user) now),
        lr_user = identity, lr_error = JUndefined\<rparr>)"
    by (simp add: login_steps_def USE_MOCK_def Some Let_def identity_def)
  from assms(1) have r: "r = \<lparr>lr_success = True,
      lr_token = JString (generateMockToken (mu_id user) now),
      lr_user = identity, lr_error = JUndefined\<rparr>"
    and w': "w' = setItem USER_DATA (stringify_item env identity)
                (setItem AUTH_TOKEN (generateMockToken (mu_id user) now) w)"
    unfolding login_def steps by simp_all
  from that [OF Some identity_def r _ w'] steps r show ?thesis
    by simp
qed

subsection \<open>Properties\<close>

text \<open>
  C9. Logout removes both persisted session entries and nothing else, whatever the storage
  held; it has no failing branch. After one call and after two calls both entries are
  absent, and the state after two calls is the state after one.
\<close>

theorem logout_idempotent:
  "logout w = w\<lparr>localStorage := (localStorage w)(AUTH_TOKEN := None, USER_DATA := None)\<rparr>
   \<and> getItem (logout w) AUTH_TOKEN = None \<and> getItem (logout w) USER_DATA = None
   \<and> getItem (logout (logout w)) AUTH_TOKEN = None
   \<and> getItem (logout (logout w)) USER_DATA = None
   \<and> logout (logout w) = logout w"
  by (simp add: logout_def removeItem_def getItem_def)

text \<open>
  C7. A login with a pair that the credential store does not recognise returns the failure
  "Invalid username or password" and leaves the whole state, both persisted entries
  included, as it was.
\<close>

theorem login_invalid_credentials:
  assumes "validateCredentials w username password = None"
  shows "login env now username password w =
           (w, login_failed (JString ''Invalid username or password''))"
  using assms by (simp add: login_def login_steps_def USE_MOCK_def)

theorem login_invalid_credentials_witness:
  "validateCredentials (fresh_context demo_store []) ''demo'' ''wrongpass'' = None
   \<and> login test_host 1700000000000 ''demo'' ''wrongpass'' (fresh_context demo_store []) =
       (fresh_context demo_store [], login_failed (JString ''Invalid username or password''))"
  using login_invalid_credentials [where env = test_host and now = 1700000000000,
      OF wrong_password [of demo_store "[]"]]
    wrong_password [of demo_store "[]"]
  by simp

text \<open>
  C8. When the persisted token entry or the persisted identity entry is absent,
  validateToken returns the not-valid result with no user, sends no request and changes
  nothing.
\<close>

theorem validateToken_no_session:
  assumes "getItem w AUTH_TOKEN = None \<or> getItem w USER_DATA = None"
  shows "validateToken env w = (w, \<lparr>vr_valid = False, vr_user = JUndefined\<rparr>)"
  using assms by (auto simp: validateToken_def not_valid_def split: option.splits)

theorem validateToken_no_session_witness:
  "(getItem (fresh_context Map.empty []) AUTH_TOKEN = None
      \<or> getItem (fresh_context Map.empty []) USER_DATA = None)
   \<and> validateToken test_host (fresh_context Map.empty []) =
       (fresh_context Map.empty [], \<lparr>vr_valid = False, vr_user = JUndefined\<rparr>)
   \<and> requests (fst (validateToken test_host (fresh_context Map.empty []))) = []"
proof -
  have absent: "getItem (fresh_context Map.empty []) AUTH_TOKEN = None
      \<or> getItem (fresh_context Map.empty []) USER_DATA = None"
    by (simp add: getItem_fresh_context)
  from validateToken_no_session [OF absent, of test_host] absent show ?thesis
    by (simp add: fresh_context_def)
qed

text \<open>
  C10. When the persisted identity entry exists and is not parseable JSON, getCurrentUser
  returns null, validateToken returns the not-valid result and submitScan answers "User
  not authenticated", each leaving the state as it was; each gives what it gives after a
  logout, that is with no session.
\<close>

theorem corrupt_user_data:
  assumes "getItem w USER_DATA = Some userData" and "JSON_parse env userData = None"
  shows "getCurrentUser env w = JNull
     \<and> validateToken env w = (w, not_valid)
     \<and> submitScan env nowISO scannedData w = (w, not_authenticated_response)
     \<and> getCurrentUser env (logout w) = getCurrentUser env w
     \<and> snd (validateToken env (logout w)) = snd (validateToken env w)
     \<and> snd (submitScan env nowISO scannedData (logout w)) =
         snd (submitScan env nowISO scannedData w)"
proof -
  have user: "getCurrentUser env w = JNull"
    using assms by (simp add: getCurrentUser_def)
  have gone: "getItem (logout w) USER_DATA = None"
    by (simp add: logout_def removeItem_def getItem_def)
  then have user': "getCurrentUser env (logout w) = JNull"
    by (simp add: getCurrentUser_def)
  have valid: "validateToken env w = (w, not_valid)"
    using assms by (simp add: validateToken_def USE_MOCK_def split: option.splits)
  have valid': "validateToken env (logout w) = (logout w, not_valid)"
    using gone by (simp add: validateToken_def split: option.splits)
  have submit: "submitScan env nowISO scannedData w = (w, not_authenticated_response)"
    by (simp add: submitScan_def USE_MOCK_def user not_authenticated_response_def)
  have submit': "submitScan env nowISO scannedData (logout w) =
      (logout w, not_authenticated_response)"
    by (simp add: submitScan_def USE_MOCK_def user' not_authenticated_response_def)
  show ?thesis
    by (simp add: user user' valid valid' submit submit')
qed

theorem corrupt_user_data_witness:
  "getItem (fresh_context corrupt_store []) USER_DATA = Some ''{''
   \<and> JSON_parse test_host ''{'' = None
   \<and> getCurrentUser test_host (fresh_context corrupt_store []) = JNull
   \<and> validateToken test_host (fresh_context corrupt_store []) =
       (fresh_context corrupt_store [], not_valid)
   \<and> submitScan test_host ''2024-01-01T00:00:00.000Z'' ''CODE-1''
         (fresh_context corrupt_store []) =
       (fresh_context corrupt_store [], not_authenticated_response)"
proof -
  have entry: "getItem (fresh_context corrupt_store []) USER_DATA = Some ''{''"
    by (simp add: getItem_fresh_context corrupt_store_def)
  from corrupt_user_data [OF entry parse_cut_short] entry parse_cut_short show ?thesis
    by simp
qed

text \<open>
  C4. Whenever a login succeeds, validateToken on a freshly loaded page over the storage
  that the login left reports the session valid with the identity that the login returned,
  provided that identity survives serialisation. This holds for every pair of credentials,
  and so for the pair demo and demo123, with which a login on a fresh page does succeed.
\<close>

theorem session_round_trip:
  assumes "login env now username password w = (w', r)" and "lr_success r"
    and "json_round_trips env (lr_user r)"
  shows "validateToken env (fresh_context (localStorage w') sent) =
           (fresh_context (localStorage w') sent, \<lparr>vr_valid = True, vr_user = lr_user r\<rparr>)"
proof -
  from assms(1,2) obtain user :: MockUser and identity :: jsvalue where
    r: "r = \<lparr>lr_success = True, lr_token = JString (generateMockToken (mu_id user) now),
              lr_user = identity, lr_error = JUndefined\<rparr>" and
    w': "w' = setItem USER_DATA (stringify_item env identity)
                (setItem AUTH_TOKEN (generateMockToken (mu_id user) now) w)"
    by (rule login_success_cases)
  from assms(3) r obtain s where
    s: "JSON_stringify env identity = Some s" "s \<noteq> []" "JSON_parse env s = Some identity"
    by (auto simp: json_round_trips_def split: option.splits)
  have token: "getItem (fresh_context (localStorage w') sent) AUTH_TOKEN =
      Some (generateMockToken (mu_id user) now)"
    unfolding getItem_fresh_context w'
    using getItem_setItem_other [OF storage_keys_differ] getItem_setItem_same
    by (simp add: getItem_def)
  have userData: "getItem (fresh_context (localStorage w') sent) USER_DATA = Some s"
    unfolding getItem_fresh_context w'
    using getItem_setItem_same [of USER_DATA] s(1)
    by (simp add: getItem_def stringify_item_def)
  show ?thesis
    unfolding validateToken_def token userData
    by (simp add: s r token_has_prefix token_not_empty USE_MOCK_def)
qed

theorem session_round_trip_witness:
  "login test_host 1700000000000 ''demo'' ''demo123'' (fresh_context Map.empty []) =
     (setItem USER_DATA demo_json (setItem AUTH_TOKEN demo_token (fresh_context Map.empty [])),
      \<lparr>lr_success = True, lr_token = JString demo_token, lr_user = demo_user,
       lr_error = JUndefined\<rparr>)
   \<and> json_round_trips test_host demo_user
   \<and> validateToken test_host (fresh_context demo_store []) =
       (fresh_context demo_store [], \<lparr>vr_valid = True, vr_user = demo_user\<rparr>)"
  using session_round_trip [OF login_demo, of Map.empty "[]" "[]"] login_demo [of Map.empty "[]"]
    demo_user_round_trips
  by (simp add: demo_store_written)

text \<open>
  C3, as the code has it. In the configuration the repository ships (USE_MOCK is true),
  validateToken consults no collaborator: it sends no request and changes nothing, and it
  reports the session valid exactly when both persisted entries are non-empty, the token
  starts with "mock-jwt-token-" and the identity entry parses as JSON; the user it reports
  is then the parsed identity entry.
\<close>

theorem validateToken_mock:
  "fst (validateToken env w) = w
   \<and> vr_valid (snd (validateToken env w)) =
       (case (getItem w AUTH_TOKEN, getItem w USER_DATA) of
          (Some token, Some userData) \<Rightarrow>
             token \<noteq> [] \<and> userData \<noteq> [] \<and> startsWith token ''mock-jwt-token-''
             \<and> JSON_parse env userData \<noteq> None
        | _ \<Rightarrow> False)
   \<and> vr_user (snd (validateToken env w)) =
       (if vr_valid (snd (validateToken env w)) then getCurrentUser env w else JUndefined)"
  by (auto simp: validateToken_def USE_MOCK_def not_valid_def getCurrentUser_def
      split: option.splits)

text \<open>
  The claim C3 fails on the code: over a storage that holds a token which is only the
  prefix and an identity with id 42, on a host whose validate endpoint refuses every token
  and with a credential store that has no user 42, validateToken reports the session valid
  for that identity, and no request has been sent.
\<close>

theorem validity_from_token_shape:
  "validateToken test_host (fresh_context forged_store []) =
     (fresh_context forged_store [], \<lparr>vr_valid = True, vr_user = ghost_user\<rparr>)
   \<and> requests (fst (validateToken test_host (fresh_context forged_store []))) = []
   \<and> collaborator_recognizes test_host ''mock-jwt-token-'' = False
   \<and> find (\<lambda>u. mu_id u = 42) (mockUsers (fresh_context forged_store [])) = None"
proof -
  have token: "getItem (fresh_context forged_store []) AUTH_TOKEN = Some ''mock-jwt-token-''"
    by (simp add: getItem_fresh_context forged_store_def AUTH_TOKEN_def USER_DATA_def)
  have userData: "getItem (fresh_context forged_store []) USER_DATA = Some ghost_json"
    by (simp add: getItem_fresh_context forged_store_def)
  have valid: "validateToken test_host (fresh_context forged_store []) =
     (fresh_context forged_store [], \<lparr>vr_valid = True, vr_user = ghost_user\<rparr>)"
    unfolding validateToken_def token userData
    by (simp add: USE_MOCK_def startsWith_def parse_ghost_json ghost_json_not_empty)
  have sent: "requests (fresh_context forged_store []) = []"
    by (simp add: fresh_context_def)
  have refused: "collaborator_recognizes test_host ''mock-jwt-token-'' = False"
    by (simp add: collaborator_recognizes_def test_host_def)
  have unknown: "find (\<lambda>u. mu_id u = 42) (mockUsers (fresh_context forged_store [])) = None"
    by (simp add: fresh_context_def seed_users_def)
  show ?thesis
    by (simp add: valid sent refused unknown)
qed

text \<open>
  C6, as the code has it. There is one token entry and one identity entry, under fixed
  keys. A successful login makes two calls on localStorage, first the token and then the
  identity, and nothing else; when it has returned, the token entry is the token it
  returned, the identity entry is the serialised identity it returned, and every other
  part of the state is as before.
\<close>

theorem login_overwrites_session:
  assumes "login env now username password w = (w', r)" and "lr_success r"
  shows "\<exists>token. lr_token r = JString token
     \<and> login_steps env now username password w =
         ([], [SetItem AUTH_TOKEN token,
               SetItem USER_DATA (stringify_item env (lr_user r))], r)
     \<and> w' = w\<lparr>localStorage := (localStorage w)(AUTH_TOKEN \<mapsto> token,
                 USER_DATA \<mapsto> stringify_item env (lr_user r))\<rparr>
     \<and> getItem w' AUTH_TOKEN = Some token
     \<and> getItem w' USER_DATA = Some (stringify_item env (lr_user r))"
proof -
  from assms(1,2) obtain user :: MockUser and identity :: jsvalue where
    r: "r = \<lparr>lr_success = True, lr_token = JString (generateMockToken (mu_id user) now),
              lr_user = identity, lr_error = JUndefined\<rparr>" and
    steps: "login_steps env now username password w =
           ([], [SetItem AUTH_TOKEN (generateMockToken (mu_id user) now),
                 SetItem USER_DATA (stringify_item env identity)], r)" and
    w': "w' = setItem USER_DATA (stringify_item env identity)
                (setItem AUTH_TOKEN (generateMockToken (mu_id user) now) w)"
    by (rule login_success_cases)
  have token: "lr_token r = JString (generateMockToken (mu_id user) now)"
    and identity: "lr_user r = identity"
    by (simp_all add: r)
  have state: "w' = w\<lparr>localStorage := (localStorage w)
      (AUTH_TOKEN \<mapsto> generateMockToken (mu_id user) now,
       USER_DATA \<mapsto> stringify_item env identity)\<rparr>"
    by (simp add: w' setItem_def)
  have stored: "getItem w' AUTH_TOKEN = Some (generateMockToken (mu_id user) now)"
    "getItem w' USER_DATA = Some (stringify_item env identity)"
    using storage_keys_differ by (simp_all add: state getItem_def)
  from token steps state stored show ?thesis
    unfolding identity by blast
qed

theorem login_overwrites_session_witness:
  "login test_host 1700000000000 ''demo'' ''demo123'' (fresh_context stale_store []) =
     (setItem USER_DATA demo_json
        (setItem AUTH_TOKEN demo_token (fresh_context stale_store [])),
      \<lparr>lr_success = True, lr_token = JString demo_token, lr_user = demo_user,
       lr_error = JUndefined\<rparr>)
   \<and> (\<exists>token. JString demo_token = JString token
        \<and> getItem (setItem USER_DATA demo_json
              (setItem AUTH_TOKEN demo_token (fresh_context stale_store []))) AUTH_TOKEN =
            Some token
        \<and> getItem (setItem USER_DATA demo_json
              (setItem AUTH_TOKEN demo_token (fresh_context stale_store []))) USER_DATA =
            Some (stringify_item test_host demo_user))"
  using login_overwrites_session [OF login_demo, of stale_store "[]"]
    login_demo [of stale_store "[]"]
  by auto

text \<open>
  The claim C6 fails on the code: the token and the identity are two writes. Over a storage
  that holds the session of identity 42, the login of the demo user first writes its token;
  the persisted state after that write pairs the new token with the identity 42, and
  validateToken on it reports the session valid for identity 42, not for the demo user.
\<close>

theorem login_two_writes:
  "(case login_steps test_host 1700000000000 ''demo'' ''demo123''
           (fresh_context stale_store []) of
      (reqs, ops, response) \<Rightarrow>
        ops = [SetItem AUTH_TOKEN demo_token, SetItem USER_DATA demo_json]
        \<and> lr_user response = demo_user
        \<and> getItem (run_ops_upto 1 ops (fresh_context stale_store [])) AUTH_TOKEN =
             Some demo_token
        \<and> getItem (run_ops_upto 1 ops (fresh_context stale_store [])) USER_DATA =
             Some ghost_json
        \<and> snd (validateToken test_host (run_ops_upto 1 ops (fresh_context stale_store []))) =
             \<lparr>vr_valid = True, vr_user = ghost_user\<rparr>)
   \<and> ghost_user \<noteq> demo_user"
proof -
  let ?mid = "run_ops_upto 1 [SetItem AUTH_TOKEN demo_token, SetItem USER_DATA demo_json]
                (fresh_context stale_store [])"
  have mid: "?mid = setItem AUTH_TOKEN demo_token (fresh_context stale_store [])"
    by (simp add: run_ops_upto_def)
  have token: "getItem ?mid AUTH_TOKEN = Some demo_token"
    unfolding mid by (rule getItem_setItem_same)
  have "getItem ?mid USER_DATA = getItem (fresh_context stale_store []) USER_DATA"
    unfolding mid using storage_keys_differ by (simp add: getItem_setItem_other)
  then have userData: "getItem ?mid USER_DATA = Some ghost_json"
    by (simp add: getItem_fresh_context stale_store_def)
  have minted: "demo_token \<noteq> []"
    by (simp add: demo_token_def)
  have valid: "snd (validateToken test_host ?mid) = \<lparr>vr_valid = True, vr_user = ghost_user\<rparr>"
    unfolding validateToken_def token userData
    by (simp add: USE_MOCK_def demo_token_has_prefix parse_ghost_json ghost_json_not_empty
        minted)
  have differ: "ghost_user \<noteq> demo_user"
    by (simp add: ghost_user_def demo_user_def)
  show ?thesis
    unfolding login_steps_demo using token userData valid differ by simp
qed

section \<open>Scan submission and the ledger\<close>

lemma truthy_has_props: "truthy v \<Longrightarrow> \<exists>x. get_prop v k = Inr x"
  by (cases v) auto

lemma isCodeAlreadyScanned_iff:
  "isCodeAlreadyScanned w d \<longleftrightarrow> d \<in> sc_data ` set (scannedCodes w)"
  by (auto simp: isCodeAlreadyScanned_def list_ex_iff)

lemma getCurrentUser_storage:
  "getCurrentUser env (w\<lparr>localStorage := store\<rparr>) = getCurrentUser env (fresh_context store [])"
  by (simp add: getCurrentUser_def getItem_def fresh_context_def)

text \<open>The three outcomes of \<open>submitScan\<close> in the mock configuration.\<close>

lemma submitScan_not_authenticated:
  "\<not> truthy (getCurrentUser env w) \<Longrightarrow>
     submitScan env nowISO d w = (w, not_authenticated_response)"
  by (simp add: submitScan_def USE_MOCK_def not_authenticated_response_def)

lemma submitScan_duplicate:
  "truthy (getCurrentUser env w) \<Longrightarrow> isCodeAlreadyScanned w d \<Longrightarrow>
     submitScan env nowISO d w = (w, duplicate_response)"
  by (simp add: submitScan_def USE_MOCK_def duplicate_response_def)

lemma submitScan_accepted:
  assumes "truthy (getCurrentUser env w)" and "\<not> isCodeAlreadyScanned w d"
  shows "\<exists>userId. get_prop (getCurrentUser env w) ''id'' = Inr userId
     \<and> submitScan env nowISO d w =
         (w\<lparr>scanIdCounter := scanIdCounter w + 1,
            scannedCodes := scannedCodes w @
              [\<lparr>sc_id = ''scan-'' @ string_of_nat (scanIdCounter w + 1), sc_data = d,
                sc_scannedAt = nowISO, sc_userId = userId\<rparr>]\<rparr>,
          accepted_response (''scan-'' @ string_of_nat (scanIdCounter w + 1)))"
proof -
  from assms(1) obtain userId where "get_prop (getCurrentUser env w) ''id'' = Inr userId"
    using truthy_has_props by blast
  with assms show ?thesis
    by (simp add: submitScan_def USE_MOCK_def addScannedCode_def Let_def
        accepted_response_def)
qed

lemma submitScan_ledger:
  "scannedCodes (fst (submitScan env nowISO d w)) = scannedCodes w
   \<or> (\<not> isCodeAlreadyScanned w d
       \<and> (\<exists>scan. sc_data scan = d
             \<and> scannedCodes (fst (submitScan env nowISO d w)) = scannedCodes w @ [scan]))"
proof (cases "truthy (getCurrentUser env w) \<and> \<not> isCodeAlreadyScanned w d")
  case True
  then obtain userId where
    "submitScan env nowISO d w =
         (w\<lparr>scanIdCounter := scanIdCounter w + 1,
            scannedCodes := scannedCodes w @
              [\<lparr>sc_id = ''scan-'' @ string_of_nat (scanIdCounter w + 1), sc_data = d,
                sc_scannedAt = nowISO, sc_userId = userId\<rparr>]\<rparr>,
          accepted_response (''scan-'' @ string_of_nat (scanIdCounter w + 1)))"
    using submitScan_accepted [of env w d nowISO] by blast
  with True show ?thesis by simp
next
  case False
  then show ?thesis
    using submitScan_not_authenticated [of env w nowISO d]
      submitScan_duplicate [of env w d nowISO]
    by (cases "truthy (getCurrentUser env w)") auto
qed

lemma login_ledger: "scannedCodes (fst (login env now username password w)) = scannedCodes w"
  by (simp add: login_def login_steps_def USE_MOCK_def Let_def setItem_def
      split: option.splits)

lemma signup_ledger: "scannedCodes (fst (signup env username email password w)) = scannedCodes w"
  by (simp add: signup_def USE_MOCK_def addMockUser_def Let_def)

lemma validateToken_ledger: "scannedCodes (fst (validateToken env w)) = scannedCodes w"
  by (simp add: validateToken_def USE_MOCK_def split: option.splits)

lemma logout_ledger: "scannedCodes (logout w) = scannedCodes w"
  by (simp add: logout_def removeItem_def)

lemma perform_unique:
  assumes "distinct (map sc_data (scannedCodes w))"
  shows "distinct (map sc_data (scannedCodes (perform env w a)))"
proof (cases a)
  case (SubmitScan nowISO d)
  from submitScan_ledger [of env nowISO d w] assms show ?thesis
    unfolding SubmitScan by (auto simp: isCodeAlreadyScanned_iff)
qed (simp_all add: assms login_ledger signup_ledger validateToken_ledger logout_ledger)

lemma run_unique:
  "distinct (map sc_data (scannedCodes w)) \<Longrightarrow>
     distinct (map sc_data (scannedCodes (run env w as)))"
  unfolding run_def
proof (induction as arbitrary: w)
  case Nil
  then show ?case by simp
next
  case (Cons a as)
  from Cons.IH [OF perform_unique [OF Cons.prems]] show ?case by simp
qed

lemma submitScans_Cons:
  assumes "submitScan env (snd c) d (w\<lparr>localStorage := fst c\<rparr>) = (w1, r)"
  shows "submitScans env d (c # cs) w =
           (fst (submitScans env d cs w1), r # snd (submitScans env d cs w1))"
  by (simp add: assms split: prod.splits)

text \<open>Once the text is in the ledger, every authenticated call for it is a duplicate.\<close>

lemma submitScans_all_duplicates:
  assumes "list_all (\<lambda>c. authenticated env (fst c)) calls" and "isCodeAlreadyScanned w d"
  shows "snd (submitScans env d calls w) = replicate (length calls) duplicate_response
     \<and> scannedCodes (fst (submitScans env d calls w)) = scannedCodes w"
  using assms
proof (induction calls arbitrary: w)
  case Nil
  then show ?case by simp
next
  case (Cons c calls)
  let ?w = "w\<lparr>localStorage := fst c\<rparr>"
  from Cons.prems(1) have "truthy (getCurrentUser env ?w)"
    by (simp add: authenticated_def getCurrentUser_storage)
  moreover from Cons.prems(2) have scanned: "isCodeAlreadyScanned ?w d"
    by (simp add: isCodeAlreadyScanned_def)
  ultimately have call: "submitScan env (snd c) d ?w = (?w, duplicate_response)"
    by (rule submitScan_duplicate)
  from Cons.prems(1) have "list_all (\<lambda>c. authenticated env (fst c)) calls"
    by simp
  from Cons.IH [OF this scanned] show ?case
    unfolding submitScans_Cons [OF call] by simp
qed

text \<open>Concrete states: who is logged in over the stores used in the runs below.\<close>

lemma logged_in_user: "getCurrentUser test_host (fresh_context demo_store sent) = demo_user"
  by (simp add: getCurrentUser_def getItem_fresh_context demo_store_def parse_demo_json
      demo_json_not_empty)

lemma other_user: "getCurrentUser test_host (fresh_context stale_store sent) = ghost_user"
  by (simp add: getCurrentUser_def getItem_fresh_context stale_store_def parse_ghost_json
      ghost_json_not_empty)

lemma nobody: "getCurrentUser env (fresh_context Map.empty sent) = JNull"
  by (simp add: getCurrentUser_def getItem_fresh_context)

lemma demo_user_id: "truthy demo_user" "get_prop demo_user ''id'' = Inr (JNumber 1)"
  by (simp_all add: demo_user_def)

lemma demo_authenticated: "authenticated test_host demo_store"
  by (simp add: authenticated_def logged_in_user demo_user_id)

lemma other_authenticated: "authenticated test_host stale_store"
  by (simp add: authenticated_def other_user ghost_user_def)

lemma records_of_none: "\<not> isCodeAlreadyScanned w d \<Longrightarrow> records_of d w = []"
  by (auto simp: records_of_def isCodeAlreadyScanned_iff filter_empty_conv)

text \<open>
  C5. Every call of submitScan ends in one of three ways. With no current user (read from
  storage at the call) it answers "User not authenticated" and the state is unchanged.
  With a current user and the text already in the ledger it answers with the duplicate
  response and the state is unchanged. Otherwise it is accepted: the ledger gains exactly
  one record, appended, carrying the text, the clock reading and the user's id, the scan
  counter that numbers the record goes up by one, and nothing else in the state changes.
\<close>

theorem submitScan_frame:
  "(\<not> truthy (getCurrentUser env w) \<longrightarrow>
      submitScan env nowISO d w = (w, not_authenticated_response))
   \<and> (truthy (getCurrentUser env w) \<and> isCodeAlreadyScanned w d \<longrightarrow>
      submitScan env nowISO d w = (w, duplicate_response))
   \<and> (truthy (getCurrentUser env w) \<and> \<not> isCodeAlreadyScanned w d \<longrightarrow>
      (\<exists>userId. get_prop (getCurrentUser env w) ''id'' = Inr userId
         \<and> submitScan env nowISO d w =
             (w\<lparr>scanIdCounter := scanIdCounter w + 1,
                scannedCodes := scannedCodes w @
                  [\<lparr>sc_id = ''scan-'' @ string_of_nat (scanIdCounter w + 1), sc_data = d,
                    sc_scannedAt = nowISO, sc_userId = userId\<rparr>]\<rparr>,
              accepted_response (''scan-'' @ string_of_nat (scanIdCounter w + 1)))))"
  using submitScan_not_authenticated [of env w nowISO d]
    submitScan_duplicate [of env w d nowISO] submitScan_accepted [of env w d nowISO]
  by blast

theorem submitScan_frame_witness:
  "\<not> truthy (getCurrentUser test_host (fresh_context Map.empty []))
   \<and> submitScan test_host ''2024-01-01T00:00:00.000Z'' ''CODE-1'' (fresh_context Map.empty []) =
       (fresh_context Map.empty [], not_authenticated_response)
   \<and> truthy (getCurrentUser test_host (fresh_context demo_store []))
   \<and> \<not> isCodeAlreadyScanned (fresh_context demo_store []) ''CODE-1''
   \<and> submitScan test_host ''2024-01-01T00:00:00.000Z'' ''CODE-1'' (fresh_context demo_store []) =
       (first_scan_recorded, accepted_response ''scan-1'')
   \<and> truthy (getCurrentUser test_host first_scan_recorded)
   \<and> isCodeAlreadyScanned first_scan_recorded ''CODE-1''
   \<and> submitScan test_host ''2024-01-02T00:00:00.000Z'' ''CODE-1'' first_scan_recorded =
       (first_scan_recorded, duplicate_response)"
proof -
  have none: "\<not> truthy (getCurrentUser test_host (fresh_context Map.empty []))"
    by (simp add: nobody)
  have user: "truthy (getCurrentUser test_host (fresh_context demo_store []))"
    by (simp add: logged_in_user demo_user_id)
  have new: "\<not> isCodeAlreadyScanned (fresh_context demo_store []) ''CODE-1''"
    by (simp add: isCodeAlreadyScanned_def fresh_context_def)
  have user': "truthy (getCurrentUser test_host first_scan_recorded)"
    by (simp add: first_scan_recorded_def getCurrentUser_def getItem_def fresh_context_def
        demo_store_def parse_demo_json demo_json_not_empty demo_user_id)
  have old: "isCodeAlreadyScanned first_scan_recorded ''CODE-1''"
    by (simp add: isCodeAlreadyScanned_def first_scan_recorded_def)
  have numbered: "''scan-'' @ string_of_nat (scanIdCounter (fresh_context demo_store []) + 1) =
      ''scan-1''"
    by (simp add: fresh_context_def string_of_nat.simps digit_char_def)
  have state: "(fresh_context demo_store [])
      \<lparr>scanIdCounter := Suc (scanIdCounter (fresh_context demo_store [])),
       scannedCodes := scannedCodes (fresh_context demo_store []) @
         [\<lparr>sc_id = ''scan-1'', sc_data = ''CODE-1'',
           sc_scannedAt = ''2024-01-01T00:00:00.000Z'', sc_userId = JNumber 1\<rparr>]\<rparr> =
      first_scan_recorded"
    by (simp add: first_scan_recorded_def fresh_context_def)
  from submitScan_frame [of test_host "fresh_context Map.empty []"
      "''2024-01-01T00:00:00.000Z''" "''CODE-1''"] none
  have a: "submitScan test_host ''2024-01-01T00:00:00.000Z'' ''CODE-1''
      (fresh_context Map.empty []) = (fresh_context Map.empty [], not_authenticated_response)"
    by blast
  from submitScan_frame [of test_host "fresh_context demo_store []"
      "''2024-01-01T00:00:00.000Z''" "''CODE-1''"] user new
  have b: "submitScan test_host ''2024-01-01T00:00:00.000Z'' ''CODE-1''
      (fresh_context demo_store []) = (first_scan_recorded, accepted_response ''scan-1'')"
    unfolding numbered by (simp add: logged_in_user demo_user_id state)
  from submitScan_frame [of test_host first_scan_recorded
      "''2024-01-02T00:00:00.000Z''" "''CODE-1''"] user' old
  have c: "submitScan test_host ''2024-01-02T00:00:00.000Z'' ''CODE-1'' first_scan_recorded =
      (first_scan_recorded, duplicate_response)"
    by blast
  from none user new user' old a b c show ?thesis
    by blast
qed

text \<open>
  C1. Take a text that is not in the ledger and any non-empty sequence of submitScan calls
  for it, each made while some user is logged in (not necessarily the same one). The first
  call is accepted and appends one record with that text; every later call gets the
  duplicate response and appends nothing; afterwards the ledger holds exactly one record
  with that text. Moreover, in every state that the services reach from a freshly loaded
  page, no two records of the ledger carry the same text, whoever owns them.
\<close>

theorem ledger_uniqueness:
  assumes "list_all (\<lambda>c. authenticated env (fst c)) (c # cs)"
    and "\<not> isCodeAlreadyScanned w d"
  shows "(\<exists>scan. sc_data scan = d
            \<and> snd (submitScans env d (c # cs) w) =
                accepted_response (sc_id scan) # replicate (length cs) duplicate_response
            \<and> scannedCodes (fst (submitScans env d (c # cs) w)) = scannedCodes w @ [scan]
            \<and> records_of d (fst (submitScans env d (c # cs) w)) = [scan])
     \<and> distinct (map sc_data (scannedCodes (run env (fresh_context store sent) as)))"
proof
  let ?w = "w\<lparr>localStorage := fst c\<rparr>"
  from assms(1) have user: "truthy (getCurrentUser env ?w)"
    by (simp add: authenticated_def getCurrentUser_storage)
  from assms(2) have new: "\<not> isCodeAlreadyScanned ?w d"
    by (simp add: isCodeAlreadyScanned_def)
  from submitScan_accepted [OF user new, of "snd c"] obtain userId where
    call: "submitScan env (snd c) d ?w =
      (?w\<lparr>scanIdCounter := scanIdCounter ?w + 1,
          scannedCodes := scannedCodes ?w @
            [\<lparr>sc_id = ''scan-'' @ string_of_nat (scanIdCounter ?w + 1), sc_data = d,
              sc_scannedAt = snd c, sc_userId = userId\<rparr>]\<rparr>,
       accepted_response (''scan-'' @ string_of_nat (scanIdCounter ?w + 1)))"
    by blast
  define scan where
    "scan = \<lparr>sc_id = ''scan-'' @ string_of_nat (scanIdCounter ?w + 1), sc_data = d,
              sc_scannedAt = snd c, sc_userId = userId\<rparr>"
  define w1 where
    "w1 = ?w\<lparr>scanIdCounter := scanIdCounter ?w + 1, scannedCodes := scannedCodes ?w @ [scan]\<rparr>"
  have call': "submitScan env (snd c) d ?w = (w1, accepted_response (sc_id scan))"
    unfolding call w1_def scan_def by simp
  have carries: "sc_data scan = d"
    by (simp add: scan_def)
  have ledger1: "scannedCodes w1 = scannedCodes w @ [scan]"
    by (simp add: w1_def)
  then have scanned: "isCodeAlreadyScanned w1 d"
    by (simp add: isCodeAlreadyScanned_iff carries)
  from assms(1) have rest: "list_all (\<lambda>c. authenticated env (fst c)) cs"
    by simp
  note later = submitScans_all_duplicates [OF rest scanned]
  have responses: "snd (submitScans env d (c # cs) w) =
      accepted_response (sc_id scan) # replicate (length cs) duplicate_response"
    unfolding submitScans_Cons [OF call'] using later by simp
  have ledger: "scannedCodes (fst (submitScans env d (c # cs) w)) = scannedCodes w @ [scan]"
    unfolding submitScans_Cons [OF call'] using later ledger1 by simp
  from records_of_none [OF assms(2)]
  have before: "filter (\<lambda>code. sc_data code = d) (scannedCodes w) = []"
    by (simp add: records_of_def)
  have "records_of d (fst (submitScans env d (c # cs) w)) = [scan]"
    unfolding records_of_def ledger by (simp add: before carries)
  with carries responses ledger
  show "\<exists>scan. sc_data scan = d
            \<and> snd (submitScans env d (c # cs) w) =
                accepted_response (sc_id scan) # replicate (length cs) duplicate_response
            \<and> scannedCodes (fst (submitScans env d (c # cs) w)) = scannedCodes w @ [scan]
            \<and> records_of d (fst (submitScans env d (c # cs) w)) = [scan]"
    by blast
next
  have "distinct (map sc_data (scannedCodes (fresh_context store sent)))"
    by (simp add: fresh_context_def)
  then show "distinct (map sc_data (scannedCodes (run env (fresh_context store sent) as)))"
    by (rule run_unique)
qed

theorem ledger_uniqueness_witness:
  "list_all (\<lambda>c. authenticated test_host (fst c))
     [(demo_store, ''2024-01-01T00:00:00.000Z''), (stale_store, ''2024-01-02T00:00:00.000Z''),
      (demo_store, ''2024-01-03T00:00:00.000Z'')]
   \<and> \<not> isCodeAlreadyScanned (fresh_context Map.empty []) ''CODE-1''
   \<and> (\<exists>scan. sc_data scan = ''CODE-1''
         \<and> snd (submitScans test_host ''CODE-1''
                  [(demo_store, ''2024-01-01T00:00:00.000Z''),
                   (stale_store, ''2024-01-02T00:00:00.000Z''),
                   (demo_store, ''2024-01-03T00:00:00.000Z'')] (fresh_context Map.empty [])) =
             [accepted_response (sc_id scan), duplicate_response, duplicate_response]
         \<and> records_of ''CODE-1'' (fst (submitScans test_host ''CODE-1''
                  [(demo_store, ''2024-01-01T00:00:00.000Z''),
                   (stale_store, ''2024-01-02T00:00:00.000Z''),
                   (demo_store, ''2024-01-03T00:00:00.000Z'')] (fresh_context Map.empty []))) =
             [scan])
   \<and> distinct (map sc_data (scannedCodes (run test_host (fresh_context Map.empty [])
        [Login 1700000000000 ''demo'' ''demo123'',
         SubmitScan ''2024-01-01T00:00:00.000Z'' ''CODE-1'',
         SubmitScan ''2024-01-02T00:00:00.000Z'' ''CODE-1''])))"
proof -
  have users: "list_all (\<lambda>c. authenticated test_host (fst c))
     [(demo_store, ''2024-01-01T00:00:00.000Z''), (stale_store, ''2024-01-02T00:00:00.000Z''),
      (demo_store, ''2024-01-03T00:00:00.000Z'')]"
    by (simp add: demo_authenticated other_authenticated)
  have new: "\<not> isCodeAlreadyScanned (fresh_context Map.empty []) ''CODE-1''"
    by (simp add: isCodeAlreadyScanned_def fresh_context_def)
  from ledger_uniqueness [OF users new, of Map.empty "[]"
      "[Login 1700000000000 ''demo'' ''demo123'',
        SubmitScan ''2024-01-01T00:00:00.000Z'' ''CODE-1'',
        SubmitScan ''2024-01-02T00:00:00.000Z'' ''CODE-1'']"] users new
  show ?thesis
    by (auto simp del: submitScans.simps)
qed

section \<open>The scan page\<close>

lemma handleScanUpdate_guard:
  "captured \<noteq> Scanning \<Longrightarrow> handleScanUpdate captured result p = p"
  by (simp add: handleScanUpdate_def)

text \<open>Every handler the camera is ever given has captured Scanning.\<close>

lemma step_onUpdate:
  assumes "onUpdate p = Scanning"
  shows "onUpdate (step env p e) = Scanning"
proof (cases e)
  case (Decoded result)
  with assms show ?thesis
    by (simp add: handleScanUpdate_def split: option.splits)
next
  case Rendered
  with assms show ?thesis
    by (simp add: render_def renders_BarcodeScanner_def)
next
  case (Settled nowISO)
  with assms show ?thesis
    by (simp add: handleScanUpdate_resume_def Let_def split: list.splits prod.splits)
next
  case (CameraFailed err)
  with assms show ?thesis
    by (simp add: handleCameraError_def)
next
  case ScanAnother
  with assms show ?thesis
    by (simp add: handleScanAnother_def)
qed

lemma steps_onUpdate: "onUpdate p = Scanning \<Longrightarrow> onUpdate (steps env p es) = Scanning"
  unfolding steps_def
proof (induction es arbitrary: p)
  case Nil
  then show ?case by simp
next
  case (Cons e es)
  from Cons.IH [OF step_onUpdate [OF Cons.prems]] show ?case by simp
qed

text \<open>So a decoded text that reaches the handler is submitted, whatever state the page is in.\<close>

lemma decoded_is_submitted:
  assumes "onUpdate p = Scanning"
  shows "in_flight (step env (steps env p es) (Decoded (Some scannedData))) =
           in_flight (steps env p es) @ [scannedData]"
  using steps_onUpdate [OF assms, of env es] by (simp add: handleScanUpdate_def)

text \<open>
  C2 does not hold of the code. On the scan page as first rendered, the camera calls the
  handler with the text CODE-1: the page goes to Processing with one submitScan call in
  flight. The camera calls the handler again with the same text. The handler tests the
  \<^verbatim>\<open>scanState\<close> that its closure captured, which is still Scanning, so the event is not
  discarded: a second submitScan call is in flight. The same happens when a render has
  come in between, since a render in the Processing state hands no new handler over.
\<close>

theorem guard_tests_captured_state:
  "scanState (ui (steps test_host scan_page [Decoded (Some ''CODE-1'')])) = Processing
   \<and> in_flight (steps test_host scan_page [Decoded (Some ''CODE-1'')]) = [''CODE-1'']
   \<and> in_flight (steps test_host scan_page
         [Decoded (Some ''CODE-1''), Decoded (Some ''CODE-1'')]) = [''CODE-1'', ''CODE-1'']
   \<and> in_flight (steps test_host scan_page
         [Decoded (Some ''CODE-1''), Rendered, Decoded (Some ''CODE-1'')]) =
        [''CODE-1'', ''CODE-1'']"
  by (simp add: steps_def scan_page_def initial_Scanner_def handleScanUpdate_def render_def
      renders_BarcodeScanner_def)

end
